theory Spec2Isabelle
  imports Complex_Main "HOL-Library.Sublist" "HOL-Library.Code_Target_Nat"
begin

section \<open>Conventions of the embedding\<close>

text \<open>
  Python text is a sequence of Unicode code points, so a string is a list of naturals;
  \<open>U\<close> writes an ASCII literal as such a list.  Python floats are modelled by exact
  rationals: comparisons and the additions of small constants the scripts perform are
  taken without rounding error, and the special values \<open>inf\<close> and \<open>nan\<close> are not
  represented.  A CSV row read by \<open>csv.DictReader\<close> is a finite map from column names
  to text.
\<close>

type_synonym ustr = "nat list"

definition U :: "string \<Rightarrow> ustr" where
  "U s = map of_char s"

type_synonym row = "string \<rightharpoonup> ustr"

datatype cell = Str ustr | Num rat


section \<open>Frequency repair (\<open>output/fix_frequency_bands.py\<close>)\<close>

text \<open>
  The body of the \<open>try\<close> block of \<open>fix_frequency_bands\<close>, as a function of the parsed
  frequency: first the shift of low frequencies, then the band check with its fallbacks.
\<close>

definition shift_low :: "rat \<Rightarrow> rat" where
  "shift_low frequency =
     (if 50 \<le> frequency \<and> frequency \<le> 54 then frequency + 94
      else if 28 \<le> frequency \<and> frequency \<le> 297 / 10 then frequency + 116
      else if frequency < 144 then
        (if frequency > 50 then frequency + 94 else 145)
      else frequency)"

definition ensure_band :: "rat \<Rightarrow> rat" where
  "ensure_band frequency =
     (if 144 \<le> frequency \<and> frequency \<le> 146 then frequency
      else if 430 \<le> frequency \<and> frequency \<le> 440 then frequency
      else if 1240 \<le> frequency \<and> frequency \<le> 1300 then frequency
      else if 2300 \<le> frequency \<and> frequency \<le> 2450 then frequency
      else if frequency > 2000 then frequency
      else if frequency < 200 then 145
      else if 400 \<le> frequency \<and> frequency \<le> 500 then frequency
      else 145)"

definition repair :: "rat \<Rightarrow> rat" where
  "repair frequency = ensure_band (shift_low frequency)"


definition kept :: "rat \<Rightarrow> bool" where
  \<comment> \<open>the frequencies the band check of \<open>ensure_band\<close> lets through\<close>
  "kept x \<longleftrightarrow> (144 \<le> x \<and> x \<le> 146) \<or> (430 \<le> x \<and> x \<le> 440) \<or> (1240 \<le> x \<and> x \<le> 1300)
     \<or> (2300 \<le> x \<and> x \<le> 2450) \<or> x > 2000 \<or> (400 \<le> x \<and> x \<le> 500)"

text \<open>
  The sums \<open>frequency + 94\<close> and \<open>frequency + 116\<close> are additions of doubles, which round.
  \<open>shift_low_with\<close> and \<open>repair_with\<close> are \<open>shift_low\<close> and \<open>repair\<close> with that addition as
  a parameter \<open>add\<close>.  \<open>int_faithful\<close> is what is used of it: an integer of absolute value up
  to \<open>2^53\<close> is a double, and rounding to nearest never carries a sum across a double.
  \<open>grid_add\<close> is such an addition, rounding to the multiples of \<open>2^-45\<close>, the spacing of the
  doubles from 128 to 256.
\<close>

definition shift_low_with :: "(rat \<Rightarrow> rat \<Rightarrow> rat) \<Rightarrow> rat \<Rightarrow> rat" where
  "shift_low_with add frequency =
     (if 50 \<le> frequency \<and> frequency \<le> 54 then add frequency 94
      else if 28 \<le> frequency \<and> frequency \<le> 297 / 10 then add frequency 116
      else if frequency < 144 then
        (if frequency > 50 then add frequency 94 else 145)
      else frequency)"

definition repair_with :: "(rat \<Rightarrow> rat \<Rightarrow> rat) \<Rightarrow> rat \<Rightarrow> rat" where
  "repair_with add frequency = ensure_band (shift_low_with add frequency)"

definition int_faithful :: "(rat \<Rightarrow> rat \<Rightarrow> rat) \<Rightarrow> bool" where
  "int_faithful add \<longleftrightarrow>
     (\<forall>x y n. \<bar>n\<bar> \<le> 2 ^ 53 \<longrightarrow>
        (rat_of_int n \<le> x + y \<longrightarrow> rat_of_int n \<le> add x y)
        \<and> (x + y \<le> rat_of_int n \<longrightarrow> add x y \<le> rat_of_int n))"


section \<open>Grid locators (\<open>maidenhead_to_latlon\<close>, \<open>maidenhead_to_gps\<close>)\<close>

text \<open>
  \<open>upper_cp\<close> is \<open>str.upper\<close> on one code point and \<open>py_int_char\<close> is \<open>int\<close> applied
  to a one-character string; both are written for ASCII text, where \<open>upper\<close> keeps the
  length and \<open>int\<close> accepts exactly the ten digits.  \<open>py_round6\<close> is \<open>round(x, 6)\<close>
  on the exact value.  A result \<open>None\<close> stands for the pair \<open>(None, None)\<close>; a pair is
  (latitude, longitude).
\<close>

definition upper_cp :: "nat \<Rightarrow> nat" where
  "upper_cp c = (if 97 \<le> c \<and> c \<le> 122 then c - 32 else c)"

definition py_int_char :: "nat \<Rightarrow> int option" where
  "py_int_char c = (if 48 \<le> c \<and> c \<le> 57 then Some (int c - 48) else None)"

definition round_half_even :: "rat \<Rightarrow> int" where
  "round_half_even x =
     (let f = \<lfloor>x\<rfloor>; d = x - of_int f
      in if d < 1 / 2 then f else if d > 1 / 2 then f + 1
         else if even f then f else f + 1)"

definition py_round6 :: "rat \<Rightarrow> rat" where
  "py_round6 x = of_int (round_half_even (x * 1000000)) / 1000000"

definition maidenhead_to_latlon :: "ustr \<Rightarrow> (rat \<times> rat) option" where
  "maidenhead_to_latlon grid0 =
     (if grid0 = [] \<or> length grid0 < 4 then None
      else
        let grid = map upper_cp grid0;
            lon_field = (int (grid ! 0) - 65) * 20 - 180;
            lat_field = (int (grid ! 1) - 65) * 10 - 90
        in case (py_int_char (grid ! 2), py_int_char (grid ! 3)) of
             (Some d2, Some d3) \<Rightarrow>
               let lon_square = d2 * 2;
                   lat_square = d3 * 1;
                   lon_subsquare =
                     (if length grid \<ge> 6 then of_int (int (grid ! 4) - 65) * (5 / 60) else 0);
                   lat_subsquare =
                     (if length grid \<ge> 6 then of_int (int (grid ! 5) - 65) * ((5 / 2) / 60) else 0);
                   extended =
                     (if length grid \<ge> 8 then
                        (case (py_int_char (grid ! 6), py_int_char (grid ! 7)) of
                           (Some d6, Some d7) \<Rightarrow>
                             Some (of_int d6 * ((1 / 2) / 60), of_int d7 * ((1 / 4) / 60))
                         | _ \<Rightarrow> None)
                      else Some (0, 0))
               in (case extended of
                     None \<Rightarrow> None
                   | Some (lon_extended, lat_extended) \<Rightarrow>
                       let longitude = of_int lon_field + of_int lon_square + lon_subsquare
                                         + lon_extended + 1 / 60;
                           latitude = of_int lat_field + of_int lat_square + lat_subsquare
                                         + lat_extended + (5 / 4) / 60
                       in Some (py_round6 latitude, py_round6 longitude))
           | _ \<Rightarrow> None)"

definition maidenhead_to_gps :: "ustr \<Rightarrow> (rat \<times> rat) option" where
  "maidenhead_to_gps grid0 =
     (if grid0 = [] \<or> length grid0 < 4 then None
      else
        let grid = map upper_cp grid0;
            lon = of_int ((int (grid ! 0) - 65) * 20 - 180 + (int (grid ! 2) - 48) * 2);
            lat = of_int ((int (grid ! 1) - 65) * 10 - 90 + (int (grid ! 3) - 48) * 1)
        in if length grid \<ge> 6
           then Some (lat + of_int (int (grid ! 5) - 65) * (1 / 24),
                      lon + of_int (int (grid ! 4) - 65) * (2 / 24))
           else Some (lat + 1 / 2, lon + 1))"

definition is_digit :: "nat \<Rightarrow> bool" where
  "is_digit c \<longleftrightarrow> 48 \<le> c \<and> c \<le> 57"


text \<open>
  For text beyond ASCII \<open>str.upper\<close> can lengthen the locator (a sharp s becomes \<open>SS\<close>) and
  \<open>int\<close> accepts every Unicode decimal digit.  \<open>maidenhead_to_latlon_py\<close> and
  \<open>maidenhead_to_gps_py\<close> are the two functions with \<open>str.upper\<close> and \<open>int\<close> on one character
  as parameters \<open>upper\<close> and \<open>pint\<close>, and with the length tests the source makes after
  upper-casing; in \<open>maidenhead_to_gps\<close> the first four characters are read without a test,
  and the \<open>IndexError\<close> is caught.  \<open>upper_sharp_s\<close> is \<open>str.upper\<close> on ASCII text and the
  sharp s.
\<close>

definition maidenhead_to_latlon_py ::
  "(ustr \<Rightarrow> ustr) \<Rightarrow> (nat \<Rightarrow> int option) \<Rightarrow> ustr \<Rightarrow> (rat \<times> rat) option" where
  "maidenhead_to_latlon_py upper pint grid0 =
     (if grid0 = [] \<or> length grid0 < 4 then None
      else
        let grid = upper grid0
        in if \<not> length grid \<ge> 2 then None
           else
             let lon_field = (int (grid ! 0) - 65) * 20 - 180;
                 lat_field = (int (grid ! 1) - 65) * 10 - 90;
                 square =
                   (if length grid \<ge> 4 then
                      (case (pint (grid ! 2), pint (grid ! 3)) of
                         (Some d2, Some d3) \<Rightarrow> Some (d2 * 2, d3 * 1)
                       | _ \<Rightarrow> None)
                    else Some (0, 0));
                 lon_subsquare =
                   (if length grid \<ge> 6 then rat_of_int (int (grid ! 4) - 65) * (5 / 60) else 0);
                 lat_subsquare =
                   (if length grid \<ge> 6 then rat_of_int (int (grid ! 5) - 65) * ((5 / 2) / 60)
                    else 0);
                 extended =
                   (if length grid \<ge> 8 then
                      (case (pint (grid ! 6), pint (grid ! 7)) of
                         (Some d6, Some d7) \<Rightarrow>
                           Some (rat_of_int d6 * ((1 / 2) / 60), rat_of_int d7 * ((1 / 4) / 60))
                       | _ \<Rightarrow> None)
                    else Some (0, 0))
             in (case (square, extended) of
                   (Some (lon_square, lat_square), Some (lon_extended, lat_extended)) \<Rightarrow>
                     let longitude = rat_of_int lon_field + rat_of_int lon_square + lon_subsquare
                                       + lon_extended + 1 / 60;
                         latitude = rat_of_int lat_field + rat_of_int lat_square + lat_subsquare
                                       + lat_extended + (5 / 4) / 60
                     in Some (py_round6 latitude, py_round6 longitude)
                 | _ \<Rightarrow> None))"

definition maidenhead_to_gps_py :: "(ustr \<Rightarrow> ustr) \<Rightarrow> ustr \<Rightarrow> (rat \<times> rat) option" where
  "maidenhead_to_gps_py upper grid0 =
     (if grid0 = [] \<or> length grid0 < 4 then None
      else
        let grid = upper grid0
        in if length grid < 4 then None
           else
             let lon = rat_of_int ((int (grid ! 0) - 65) * 20 - 180 + (int (grid ! 2) - 48) * 2);
                 lat = rat_of_int ((int (grid ! 1) - 65) * 10 - 90 + (int (grid ! 3) - 48) * 1)
             in if length grid \<ge> 6
                then Some (lat + rat_of_int (int (grid ! 5) - 65) * (1 / 24),
                           lon + rat_of_int (int (grid ! 4) - 65) * (2 / 24))
                else Some (lat + 1 / 2, lon + 1))"


section \<open>Text normalisation (\<open>convert_umlauts\<close>)\<close>

text \<open>
  \<open>str_replace old new s\<close> is \<open>s.replace(old, new)\<close>: the occurrences of \<open>old\<close> are
  replaced from left to right without overlap.  Every copy of \<open>convert_umlauts\<close> runs
  through its table in the order of the dictionary literal (a key written twice keeps
  its first place), replacing in the result of the step before.
\<close>

fun str_replace :: "ustr \<Rightarrow> ustr \<Rightarrow> ustr \<Rightarrow> ustr" where
  "str_replace [] new s = new @ concat (map (\<lambda>c. c # new) s)"
| "str_replace (k # ks) new [] = []"
| "str_replace (k # ks) new (c # s) =
     (if prefix (k # ks) (c # s) then new @ str_replace (k # ks) new (drop (length ks) s)
      else c # str_replace (k # ks) new s)"

definition apply_map :: "(ustr \<times> ustr) list \<Rightarrow> ustr \<Rightarrow> ustr" where
  "apply_map umlaut_map text = foldl (\<lambda>result (umlaut, replacement).
     str_replace umlaut replacement result) text umlaut_map"

definition umlaut_map_fix :: "(ustr \<times> ustr) list" where
  \<comment> \<open>the table of \<open>output/fix_umlauts.py\<close>\<close>
  "umlaut_map_fix =
     [([228], U ''ae''), ([196], U ''Ae''), ([246], U ''oe''), ([214], U ''Oe''),
      ([252], U ''ue''), ([220], U ''Ue''), ([223], U ''ss''), ([233], U ''e''),
      ([201], U ''E''), ([232], U ''e''), ([200], U ''E''), ([225], U ''a''),
      ([193], U ''A''), ([224], U ''a''), ([192], U ''A''), ([237], U ''i''),
      ([205], U ''I''), ([236], U ''i''), ([204], U ''I''), ([243], U ''o''),
      ([211], U ''O''), ([242], U ''o''), ([210], U ''O''), ([250], U ''u''),
      ([218], U ''U''), ([249], U ''u''), ([217], U ''U''), ([241], U ''n''),
      ([209], U ''N''), ([231], U ''c''), ([199], U ''C''), ([8211], U ''-''),
      ([8212], U ''-''), ([34], [34]), ([58, 32, 34, 39, 34, 44, 32], [39]),
      ([8230], U ''...'')]"

definition umlaut_map_sota :: "(ustr \<times> ustr) list" where
  \<comment> \<open>the table of \<open>scripts/create_icom_sota_csv.py\<close>, with the keys the file holds\<close>
  "umlaut_map_sota =
     [([8730, 167], U ''ae''), ([8730, 209], U ''Ae''), ([8730, 8706], U ''oe''),
      ([8730, 241], U ''Oe''), ([8730, 186], U ''ue''), ([8730, 250], U ''Ue''),
      ([8730, 252], U ''ss''), ([8730, 169], U ''e''), ([8730, 226], U ''E''),
      ([8730, 174], U ''e''), ([8730, 224], U ''E''), ([8730, 176], U ''a''),
      ([8730, 197], U ''A''), ([8730, 8224], U ''a''), ([8730, 196], U ''A''),
      ([8730, 8800], U ''i''), ([8730, 231], U ''I''), ([8730, 168], U ''i''),
      ([8730, 229], U ''I''), ([8730, 8805], U ''o''), ([8730, 236], U ''O''),
      ([8730, 8804], U ''o''), ([8730, 237], U ''O''), ([8730, 8747], U ''u''),
      ([8730, 246], U ''U''), ([8730, 960], U ''u''), ([8730, 244], U ''U''),
      ([8730, 177], U ''n''), ([8730, 235], U ''N''), ([8730, 223], U ''c''),
      ([8730, 225], U ''C''), ([8218, 196, 236], U ''-''),
      ([8218, 196, 238], U ''-''), ([34], [34]),
      ([58, 32, 34, 39, 34, 44, 32], [39]), ([402, 230], U ''l''),
      ([402, 937], U ''L''), ([8776, 230], U ''z''), ([8776, 937], U ''Z''),
      ([402, 231], U ''c''), ([402, 229], U ''C''), ([8776, 176], U ''s''),
      ([8776, 8224], U ''S''), ([8730, 937], U ''y''), ([8730, 249], U ''Y''),
      ([8776, 8226], U ''t''), ([8776, 167], U ''T''), ([8776, 224], U ''n''),
      ([8776, 225], U ''N''), ([402, 232], U ''d''), ([402, 233], U ''D''),
      ([8776, 244], U ''r''), ([8776, 242], U ''R''), ([8218, 196, 182], U ''...'')]"

definition umlaut_map_gps :: "(ustr \<times> ustr) list" where
  \<comment> \<open>the table shared by \<open>create_pota_parks_api.py\<close>, \<open>create_all_pota_parks.py\<close>, \<open>generate_gps_data.py\<close>, \<open>create_pota_gps_format.py\<close> and \<open>create_sota_gps_format.py\<close>\<close>
  "umlaut_map_gps =
     [([228], U ''ae''), ([196], U ''Ae''), ([246], U ''oe''), ([214], U ''Oe''),
      ([252], U ''ue''), ([220], U ''Ue''), ([223], U ''ss''), ([233], U ''e''),
      ([201], U ''E''), ([232], U ''e''), ([200], U ''E''), ([225], U ''a''),
      ([193], U ''A''), ([224], U ''a''), ([192], U ''A''), ([237], U ''i''),
      ([205], U ''I''), ([236], U ''i''), ([204], U ''I''), ([243], U ''o''),
      ([211], U ''O''), ([242], U ''o''), ([210], U ''O''), ([250], U ''u''),
      ([218], U ''U''), ([249], U ''u''), ([217], U ''U''), ([241], U ''n''),
      ([209], U ''N''), ([231], U ''c''), ([199], U ''C''), ([8211], U ''-''),
      ([8212], U ''-''), ([34], [34]), ([58, 32, 34, 39, 34, 44, 32], [39]),
      ([8230], U ''...''), ([345], U ''r''), ([344], U ''R''), ([318], U ''l''),
      ([317], U ''L''), ([353], U ''s''), ([352], U ''S''), ([357], U ''t''),
      ([356], U ''T''), ([382], U ''z''), ([381], U ''Z''), ([253], U ''y''),
      ([221], U ''Y''), ([269], U ''c''), ([268], U ''C''), ([271], U ''d''),
      ([270], U ''D''), ([328], U ''n''), ([327], U ''N''), ([244], U ''o''),
      ([212], U ''O'')]"

definition umlaut_map_icom_pota :: "(ustr \<times> ustr) list" where
  \<comment> \<open>the table of \<open>output/create_icom_pota_csv.py\<close>\<close>
  "umlaut_map_icom_pota =
     [([228], U ''ae''), ([196], U ''Ae''), ([246], U ''oe''), ([214], U ''Oe''),
      ([252], U ''ue''), ([220], U ''Ue''), ([223], U ''ss''), ([233], U ''e''),
      ([201], U ''E''), ([232], U ''e''), ([200], U ''E''), ([225], U ''a''),
      ([193], U ''A''), ([224], U ''a''), ([192], U ''A''), ([237], U ''i''),
      ([205], U ''I''), ([236], U ''i''), ([204], U ''I''), ([243], U ''o''),
      ([211], U ''O''), ([242], U ''o''), ([210], U ''O''), ([250], U ''u''),
      ([218], U ''U''), ([249], U ''u''), ([217], U ''U''), ([241], U ''n''),
      ([209], U ''N''), ([231], U ''c''), ([199], U ''C''), ([8211], U ''-''),
      ([8212], U ''-''), ([34], [34]), ([58, 32, 34, 39, 34, 44, 32], [39]),
      ([8230], U ''...''), ([345], U ''r''), ([344], U ''R'')]"

definition decomposition_table :: "(nat \<times> ustr) list" where
  "decomposition_table =
     [(192, [65, 768]), (193, [65, 769]), (194, [65, 770]), (195, [65, 771]),
      (196, [65, 776]), (197, [65, 778]), (199, [67, 807]), (200, [69, 768]),
      (201, [69, 769]), (202, [69, 770]), (203, [69, 776]), (204, [73, 768]),
      (205, [73, 769]), (206, [73, 770]), (207, [73, 776]), (209, [78, 771]),
      (210, [79, 768]), (211, [79, 769]), (212, [79, 770]), (213, [79, 771]),
      (214, [79, 776]), (217, [85, 768]), (218, [85, 769]), (219, [85, 770]),
      (220, [85, 776]), (221, [89, 769]), (224, [97, 768]), (225, [97, 769]),
      (226, [97, 770]), (227, [97, 771]), (228, [97, 776]), (229, [97, 778]),
      (231, [99, 807]), (232, [101, 768]), (233, [101, 769]), (234, [101, 770]),
      (235, [101, 776]), (236, [105, 768]), (237, [105, 769]), (238, [105, 770]),
      (239, [105, 776]), (241, [110, 771]), (242, [111, 768]), (243, [111, 769]),
      (244, [111, 770]), (245, [111, 771]), (246, [111, 776]), (249, [117, 768]),
      (250, [117, 769]), (251, [117, 770]), (252, [117, 776]), (253, [121, 769]),
      (255, [121, 776]), (256, [65, 772]), (257, [97, 772]), (258, [65, 774]),
      (259, [97, 774]), (260, [65, 808]), (261, [97, 808]), (262, [67, 769]),
      (263, [99, 769]), (264, [67, 770]), (265, [99, 770]), (266, [67, 775]),
      (267, [99, 775]), (268, [67, 780]), (269, [99, 780]), (270, [68, 780]),
      (271, [100, 780]), (274, [69, 772]), (275, [101, 772]), (276, [69, 774]),
      (277, [101, 774]), (278, [69, 775]), (279, [101, 775]), (280, [69, 808]),
      (281, [101, 808]), (282, [69, 780]), (283, [101, 780]), (284, [71, 770]),
      (285, [103, 770]), (286, [71, 774]), (287, [103, 774]), (288, [71, 775]),
      (289, [103, 775]), (290, [71, 807]), (291, [103, 807]), (292, [72, 770]),
      (293, [104, 770]), (296, [73, 771]), (297, [105, 771]), (298, [73, 772]),
      (299, [105, 772]), (300, [73, 774]), (301, [105, 774]), (302, [73, 808]),
      (303, [105, 808]), (304, [73, 775]), (308, [74, 770]), (309, [106, 770]),
      (310, [75, 807]), (311, [107, 807]), (313, [76, 769]), (314, [108, 769]),
      (315, [76, 807]), (316, [108, 807]), (317, [76, 780]), (318, [108, 780]),
      (323, [78, 769]), (324, [110, 769]), (325, [78, 807]), (326, [110, 807]),
      (327, [78, 780]), (328, [110, 780]), (332, [79, 772]), (333, [111, 772]),
      (334, [79, 774]), (335, [111, 774]), (336, [79, 779]), (337, [111, 779]),
      (340, [82, 769]), (341, [114, 769]), (342, [82, 807]), (343, [114, 807]),
      (344, [82, 780]), (345, [114, 780]), (346, [83, 769]), (347, [115, 769]),
      (348, [83, 770]), (349, [115, 770]), (350, [83, 807]), (351, [115, 807]),
      (352, [83, 780]), (353, [115, 780]), (354, [84, 807]), (355, [116, 807]),
      (356, [84, 780]), (357, [116, 780]), (360, [85, 771]), (361, [117, 771]),
      (362, [85, 772]), (363, [117, 772]), (364, [85, 774]), (365, [117, 774]),
      (366, [85, 778]), (367, [117, 778]), (368, [85, 779]), (369, [117, 779]),
      (370, [85, 808]), (371, [117, 808]), (372, [87, 770]), (373, [119, 770]),
      (374, [89, 770]), (375, [121, 770]), (376, [89, 776]), (377, [90, 769]),
      (378, [122, 769]), (379, [90, 775]), (380, [122, 775]), (381, [90, 780]),
      (382, [122, 780])]"

text \<open>
  \<open>unicodedata.normalize('NFD', s)\<close> replaces every code point by its full canonical
  decomposition and then reorders combining marks.  The scripts keep only the code points
  below 128 of the result, and combining marks are all above 128, so the reordering is
  left out.  The decompositions are those of the Unicode character database for the
  blocks Latin-1 Supplement and Latin Extended-A (U+0080 to U+017F); ASCII has none, and
  a code point above these blocks is taken to have none.
\<close>

definition canonical_decomposition :: "nat \<Rightarrow> ustr" where
  "canonical_decomposition c =
     (if c < 128 then [c]
      else case map_of decomposition_table c of None \<Rightarrow> [c] | Some d \<Rightarrow> d)"

definition nfd_ascii :: "ustr \<Rightarrow> ustr" where
  \<comment> \<open>\<open>''.join(char for char in normalize('NFD', result) if ord(char) < 128)\<close>\<close>
  "nfd_ascii result = filter (\<lambda>char. char < 128) (concat (map canonical_decomposition result))"

definition convert_umlauts_fix :: "ustr \<Rightarrow> ustr" where
  \<comment> \<open>\<open>convert_umlauts\<close> of \<open>output/fix_umlauts.py\<close>\<close>
  "convert_umlauts_fix text =
     (if text = [] then text else nfd_ascii (apply_map umlaut_map_fix text))"

definition convert_umlauts_sota :: "ustr \<Rightarrow> ustr" where
  \<comment> \<open>\<open>convert_umlauts\<close> of \<open>scripts/create_icom_sota_csv.py\<close>\<close>
  "convert_umlauts_sota text =
     (if text = [] then text else nfd_ascii (apply_map umlaut_map_sota text))"

definition convert_umlauts_gps :: "ustr \<Rightarrow> ustr" where
  \<comment> \<open>\<open>convert_umlauts\<close> of the five scripts that share the long table; no NFD step\<close>
  "convert_umlauts_gps text = (if text = [] then text else apply_map umlaut_map_gps text)"

definition convert_umlauts_icom_pota :: "ustr \<Rightarrow> ustr" where
  \<comment> \<open>\<open>convert_umlauts\<close> of \<open>output/create_icom_pota_csv.py\<close>; no NFD step\<close>
  "convert_umlauts_icom_pota text =
     (if text = [] then text else apply_map umlaut_map_icom_pota text)"

definition claimed_table :: "(nat \<times> ustr) list" where
  \<comment> \<open>the substitutions C5 lists, with their capitalised forms\<close>
  "claimed_table =
     [(228, U ''ae''), (246, U ''oe''), (252, U ''ue''), (223, U ''ss''), (353, U ''s''),
      (269, U ''c''), (382, U ''z''), (345, U ''r''), (318, U ''l''), (357, U ''t''),
      (271, U ''d''), (328, U ''n''), (244, U ''o''), (253, U ''y''),
      (196, U ''Ae''), (214, U ''Oe''), (220, U ''Ue''), (352, U ''S''),
      (268, U ''C''), (381, U ''Z''), (344, U ''R''), (317, U ''L''), (356, U ''T''),
      (270, U ''D''), (327, U ''N''), (212, U ''O''), (221, U ''Y'')]"

definition matches_claimed :: "(ustr \<Rightarrow> ustr) \<Rightarrow> bool" where
  "matches_claimed conv \<longleftrightarrow> list_all (\<lambda>(c, out). conv [c] = out) claimed_table"

section \<open>Rows, text helpers and number parsing\<close>

text \<open>
  \<open>is_space\<close> lists the code points \<open>str.strip\<close> removes.  \<open>lower_cp\<close> is \<open>str.lower\<close>
  on one code point, written for ASCII and Latin-1 letters.  Python's \<open>float\<close> applied to
  a text is a parameter \<open>pf\<close> of every function that parses a field: \<open>None\<close> is the
  \<open>ValueError\<close>.  \<open>parse_decimal\<close> is one such parser, for plain decimal notation (optional
  sign, digits, at most one point), used where a concrete row is evaluated.  Python's
  \<open>str\<close> of a float is the parameter \<open>fstr\<close>.
\<close>

definition is_space :: "nat \<Rightarrow> bool" where
  "is_space c \<longleftrightarrow> (9 \<le> c \<and> c \<le> 13) \<or> (28 \<le> c \<and> c \<le> 32) \<or> c = 133 \<or> c = 160
     \<or> c = 5760 \<or> (8192 \<le> c \<and> c \<le> 8202) \<or> c = 8232 \<or> c = 8233 \<or> c = 8239
     \<or> c = 8287 \<or> c = 12288"

definition strip :: "ustr \<Rightarrow> ustr" where
  "strip s = rev (dropWhile is_space (rev (dropWhile is_space s)))"

definition lower_cp :: "nat \<Rightarrow> nat" where
  "lower_cp c =
     (if 65 \<le> c \<and> c \<le> 90 then c + 32
      else if 192 \<le> c \<and> c \<le> 222 \<and> c \<noteq> 215 then c + 32
      else c)"

definition get_default :: "row \<Rightarrow> string \<Rightarrow> ustr \<Rightarrow> ustr" where
  \<comment> \<open>\<open>row.get(key, default)\<close> with a text default\<close>
  "get_default row key dflt = (case row key of None \<Rightarrow> dflt | Some v \<Rightarrow> v)"

definition get_float :: "(ustr \<Rightarrow> rat option) \<Rightarrow> row \<Rightarrow> string \<Rightarrow> rat option" where
  \<comment> \<open>\<open>float(row.get(key, 0))\<close>: an absent column reads as 0\<close>
  "get_float pf row key = (case row key of None \<Rightarrow> Some 0 | Some v \<Rightarrow> pf v)"

fun digits_value :: "ustr \<Rightarrow> nat" where
  "digits_value [] = 0"
| "digits_value (c # cs) = (c - 48) * 10 ^ length cs + digits_value cs"

definition parse_unsigned :: "ustr \<Rightarrow> rat option" where
  "parse_unsigned s =
     (let a = takeWhile is_digit s; b = dropWhile is_digit s
      in if b = [] then (if a = [] then None else Some (of_nat (digits_value a)))
         else if hd b = 46 \<and> list_all is_digit (tl b) \<and> (a \<noteq> [] \<or> tl b \<noteq> [])
         then Some (of_nat (digits_value a) + of_nat (digits_value (tl b)) / 10 ^ length (tl b))
         else None)"

definition parse_decimal :: "ustr \<Rightarrow> rat option" where
  "parse_decimal s0 =
     (case strip s0 of
        [] \<Rightarrow> None
      | c # cs \<Rightarrow>
          if c = 45 then map_option uminus (parse_unsigned cs)
          else if c = 43 then parse_unsigned cs
          else parse_unsigned (c # cs))"

fun nat_digits :: "nat \<Rightarrow> ustr" where
  "nat_digits n = (if n < 10 then [48 + n] else nat_digits (n div 10) @ [48 + n mod 10])"

definition str_int :: "int \<Rightarrow> ustr" where
  \<comment> \<open>the decimal text of an integer, as an f-string writes it\<close>
  "str_int i = (if i < 0 then 45 # nat_digits (nat (- i)) else nat_digits (nat i))"

definition py_trunc :: "rat \<Rightarrow> int" where
  \<comment> \<open>\<open>int(x)\<close> of a float: truncation towards zero\<close>
  "py_trunc x = (if 0 \<le> x then \<lfloor>x\<rfloor> else \<lceil>x\<rceil>)"

fun join_space :: "ustr list \<Rightarrow> ustr" where
  "join_space [] = []"
| "join_space [x] = x"
| "join_space (x # y # ys) = x @ [32] @ join_space (y # ys)"

text \<open>The row every exporter writes: the 17 columns of the channel schema.\<close>

record icom_row =
  Group_No :: int
  Group_Name :: ustr
  Name :: ustr
  Sub_Name :: ustr
  Repeater_Call_Sign :: ustr
  Gateway_Call_Sign :: ustr
  Frequency :: cell
  Dup :: ustr
  Offset :: cell
  Mode :: ustr
  TONE :: ustr
  Repeater_Tone :: ustr
  RPT1USE :: ustr
  Position :: ustr
  Latitude :: cell
  Longitude :: cell
  UTC_Offset :: ustr

section \<open>The SOTA exporters\<close>

text \<open>
  \<open>sota_row\<close> is the body of the loop of \<open>convert_sota_to_icom_format\<close>
  (\<open>scripts/create_icom_sota_csv.py\<close>): \<open>None\<close> where the source leaves the iteration by
  \<open>continue\<close>, also from the \<open>except\<close> clause.
\<close>

definition sota_name :: "ustr \<Rightarrow> ustr \<Rightarrow> ustr" where
  "sota_name callsign summit_name =
     (if summit_name \<noteq> [] then callsign @ [32] @ take 10 summit_name else callsign)"

definition sota_sub_name :: "(ustr \<Rightarrow> rat option) \<Rightarrow> ustr \<Rightarrow> ustr \<Rightarrow> ustr \<Rightarrow> ustr" where
  "sota_sub_name pf state elevation country_code =
     (let sub_parts =
            (if state \<noteq> [] then [convert_umlauts_sota (take 8 state)] else [])
            @ (if elevation \<noteq> [] then
                 (case pf elevation of
                    Some e \<Rightarrow> [str_int (py_trunc e) @ U ''m'']
                  | None \<Rightarrow> [])
               else [])
      in if sub_parts \<noteq> [] then join_space sub_parts else country_code)"

definition sota_row :: "(ustr \<Rightarrow> rat option) \<Rightarrow> int \<Rightarrow> ustr \<Rightarrow> row \<Rightarrow> icom_row option" where
  "sota_row pf group_number group_name row =
     (case get_float pf row ''lat'' of
        None \<Rightarrow> None
      | Some lat \<Rightarrow>
         (case get_float pf row ''long'' of
            None \<Rightarrow> None
          | Some lon \<Rightarrow>
             if lat = 0 \<or> lon = 0 then None
             else
               let callsign = strip (get_default row ''callsign'' []);
                   summit_name = strip (get_default row ''name'' []);
                   state = strip (get_default row ''state'' []);
                   country_code = strip (get_default row ''country_code'' []);
                   elevation = strip (get_default row ''sea_level'' [])
               in if callsign = [] then None
                  else
                    let name = convert_umlauts_sota (sota_name callsign summit_name);
                        sub_name = convert_umlauts_sota
                                     (sota_sub_name pf state elevation country_code);
                        utc_offset = (if country_code = U ''SGP'' then U ''+8:00''
                                      else U ''+1:00'')
                    in Some \<lparr>Group_No = group_number, Group_Name = group_name,
                             Name = take 16 name, Sub_Name = take 16 sub_name,
                             Repeater_Call_Sign = [], Gateway_Call_Sign = [],
                             Frequency = Str [], Dup = [], Offset = Str [],
                             Mode = U ''GPS'', TONE = [], Repeater_Tone = [], RPT1USE = [],
                             Position = U ''Exact'', Latitude = Num lat, Longitude = Num lon,
                             UTC_Offset = utc_offset\<rparr>))"

fun convert_sota_to_icom_format ::
  "(ustr \<Rightarrow> rat option) \<Rightarrow> int \<Rightarrow> ustr \<Rightarrow> row list \<Rightarrow> icom_row list" where
  "convert_sota_to_icom_format pf group_number group_name [] = []"
| "convert_sota_to_icom_format pf group_number group_name (row # rows) =
     (case sota_row pf group_number group_name row of
        None \<Rightarrow> convert_sota_to_icom_format pf group_number group_name rows
      | Some icom_row \<Rightarrow> icom_row # convert_sota_to_icom_format pf group_number group_name rows)"

text \<open>
  \<open>sota_gps_entry\<close> is the body of the loop of \<open>create_sota_gps_files\<close>
  (\<open>scripts/create_sota_gps_format.py\<close>); it returns the country code the entry is filed
  under and the entry.  The date is a parameter.
\<close>

record gps_entry =
  gps_Group :: ustr
  gps_Group_Name :: ustr
  gps_Name :: ustr
  gps_Date :: ustr
  gps_Time :: ustr
  gps_Latitude :: rat
  gps_Longitude :: rat
  gps_Altitude :: ustr
  gps_Alarm :: ustr

definition group_map :: "(ustr \<times> ustr \<times> ustr) list" where
  "group_map = [(U ''AUT'', U ''X'', U ''SOTA-AT''), (U ''SVK'', U ''Y'', U ''SOTA-SK''),
                (U ''SGP'', U ''Z'', U ''SOTA-SG'')]"

definition sota_gps_entry ::
  "(ustr \<Rightarrow> rat option) \<Rightarrow> ustr \<Rightarrow> row \<Rightarrow> (ustr \<times> gps_entry) option" where
  "sota_gps_entry pf current_date row =
     (let country_code = map upper_cp (get_default row ''country_code'' [])
      in case map_of group_map country_code of
           None \<Rightarrow> None
         | Some (grp, grp_name) \<Rightarrow>
            (let name = get_default row ''name'' []
             in case get_float pf row ''lat'' of
                  None \<Rightarrow> None
                | Some lat \<Rightarrow>
                   (case get_float pf row ''long'' of
                      None \<Rightarrow> None
                    | Some lon \<Rightarrow>
                       if name = [] \<or> lat = 0 \<or> lon = 0 then None
                       else
                         let clean_name = convert_umlauts_gps name;
                             display_name = (if length clean_name > 50
                                             then take 47 clean_name @ U ''...''
                                             else clean_name)
                         in Some (country_code,
                              \<lparr>gps_Group = grp, gps_Group_Name = grp_name,
                               gps_Name = display_name, gps_Date = current_date,
                               gps_Time = U ''00:00:00'', gps_Latitude = lat,
                               gps_Longitude = lon, gps_Altitude = [],
                               gps_Alarm = U ''OFF''\<rparr>))))"

section \<open>The FM repeater exporter (\<open>scripts/create_icom_fm_csv.py\<close>)\<close>

text \<open>
  \<open>fm_row\<close> is the body of the loop of \<open>convert_mcp_to_icom_fm_format\<close>.  The inner
  \<open>try\<close> blocks of the source become the cases on the parsed offset, tone and
  coordinates; the outer \<open>except\<close> is reached only from the frequency.
\<close>

definition fm_frequency :: "(ustr \<Rightarrow> rat option) \<Rightarrow> row \<Rightarrow> rat option" where
  \<comment> \<open>\<open>float(row.get('freq_rx', row.get('freq_tx', 0)))\<close>\<close>
  "fm_frequency pf row =
     (case row ''freq_rx'' of
        Some v \<Rightarrow> pf v
      | None \<Rightarrow> (case row ''freq_tx'' of Some v \<Rightarrow> pf v | None \<Rightarrow> Some 0))"

definition fm_duplex :: "(ustr \<Rightarrow> rat option) \<Rightarrow> row \<Rightarrow> ustr \<times> rat" where
  "fm_duplex pf row =
     (case get_float pf row ''offset'' of
        None \<Rightarrow> ([], 0)
      | Some offset_mhz \<Rightarrow>
          let dup_direction = get_default row ''dup'' []
          in if dup_direction = U ''+'' then (U ''DUP+'', offset_mhz)
             else if dup_direction = U ''-'' then (U ''DUP-'', offset_mhz)
             else ([], 0))"

definition fm_tone :: "(ustr \<Rightarrow> rat option) \<Rightarrow> (rat \<Rightarrow> ustr) \<Rightarrow> row \<Rightarrow> ustr \<times> ustr" where
  "fm_tone pf fstr row =
     (let ctcss_tx = get_default row ''ctcss_tx'' []
      in if ctcss_tx \<noteq> [] then
           (case pf ctcss_tx of
              Some tone_freq \<Rightarrow> (U ''TONE'', fstr tone_freq @ U ''Hz'')
            | None \<Rightarrow> (U ''OFF'', U ''88.5Hz''))
         else (U ''OFF'', U ''88.5Hz''))"

definition fm_position :: "(ustr \<Rightarrow> rat option) \<Rightarrow> row \<Rightarrow> rat \<times> rat" where
  "fm_position pf row =
     (case (get_float pf row ''lat'', get_float pf row ''long'') of
        (Some latitude, Some longitude) \<Rightarrow> (latitude, longitude)
      | _ \<Rightarrow> (0, 0))"

definition fm_row ::
  "(ustr \<Rightarrow> rat option) \<Rightarrow> (rat \<Rightarrow> ustr) \<Rightarrow> ustr option \<Rightarrow> int \<Rightarrow> ustr \<Rightarrow> row
     \<Rightarrow> icom_row option" where
  "fm_row pf fstr country_filter group_number group_name row =
     (if (case country_filter of
            None \<Rightarrow> False
          | Some cf \<Rightarrow> cf \<noteq> [] \<and> get_default row ''country'' [] \<noteq> cf) then None
      else if map lower_cp (get_default row ''fm'' (U ''True'')) \<noteq> U ''true'' then None
      else
        (case fm_frequency pf row of
           None \<Rightarrow> None
         | Some frequency \<Rightarrow>
             let (dup, offset_mhz) = fm_duplex pf row;
                 (tone_setting, tone_value) = fm_tone pf fstr row;
                 position = (if map lower_cp (get_default row ''loc_exact'' (U ''False''))
                                  = U ''true''
                             then U ''Exact'' else U ''Approximate'');
                 (latitude, longitude) = fm_position pf row;
                 utc_offset = (if country_filter = Some (U ''Singapore'') then U ''+8:00''
                               else if country_filter = Some (U ''Japan'') then U ''+9:00''
                               else U ''+1:00'')
             in Some \<lparr>Group_No = group_number, Group_Name = group_name,
                      Name = strip (get_default row ''name'' []),
                      Sub_Name = strip (get_default row ''landmark'' []),
                      Repeater_Call_Sign = strip (get_default row ''callsign'' []),
                      Gateway_Call_Sign = [],
                      Frequency = Num frequency, Dup = dup, Offset = Num offset_mhz,
                      Mode = U ''FM'', TONE = tone_setting, Repeater_Tone = tone_value,
                      RPT1USE = (if tone_setting \<noteq> U ''OFF'' then U ''YES'' else U ''NO''),
                      Position = position, Latitude = Num latitude,
                      Longitude = Num longitude, UTC_Offset = utc_offset\<rparr>))"


section \<open>The frequency fixer over a file (\<open>fix_frequency_bands\<close>)\<close>




section \<open>The Vienna broadcast exporter (\<open>scripts/create_icom_vienna_radio_csv.py\<close>)\<close>

text \<open>
  \<open>calculate_distance\<close> from the city centre is floating-point trigonometry and is a
  parameter \<open>vdist\<close> (latitude, longitude to kilometres).  \<open>str.lower\<close> applied to the
  station name, which folds every cased letter of Unicode, is a parameter \<open>lower\<close>.
  \<open>vienna_station\<close> is the part of the loop body that reads a row, \<open>None\<close> where the row
  is left by \<open>continue\<close>; the loop keeps the list \<open>stations\<close> and the set
  \<open>seen_stations\<close>.
\<close>

record station =
  st_score :: rat
  st_name :: ustr
  st_sub_name :: ustr
  st_frequency :: rat
  st_lat :: rat
  st_lon :: rat
  st_loc_exact :: bool

definition priority_stations :: "(ustr \<times> int) list" where
  "priority_stations =
     [([214, 49], 100), ([214, 51], 95), (U ''FM4'', 90), (U ''Kronehit'', 85),
      (U ''ENERGY'', 80), (U ''oe24'', 75),
      ([72, 105, 116, 114, 97, 100, 105, 111, 32, 214, 51], 70), (U ''Radio Wien'', 65),
      (U ''ROCK ANTENNE'', 60), (U ''Life Radio'', 55), (U ''Stadtradio Krems'', 95)]"

definition priority_score :: "ustr \<Rightarrow> int" where
  \<comment> \<open>\<open>priority_stations.get(station_name, 0)\<close>\<close>
  "priority_score station_name =
     (case map_of priority_stations station_name of None \<Rightarrow> 0 | Some p \<Rightarrow> p)"

definition station_key :: "(ustr \<Rightarrow> ustr) \<Rightarrow> ustr \<Rightarrow> ustr" where
  \<comment> \<open>\<open>station_name.lower().replace(' ', '')\<close>\<close>
  "station_key lower station_name = str_replace [32] [] (lower station_name)"

definition vienna_station ::
  "(ustr \<Rightarrow> rat option) \<Rightarrow> (rat \<Rightarrow> rat \<Rightarrow> rat) \<Rightarrow> (rat \<Rightarrow> ustr) \<Rightarrow> row \<Rightarrow> station option" where
  "vienna_station pf vdist fstr row =
     (case (get_float pf row ''lat'', get_float pf row ''long'') of
        (Some lat, Some lon) \<Rightarrow>
          let distance = vdist lat lon
          in if (150::rat) < distance then None
             else
               (case row ''freq_rx'' of
                  None \<Rightarrow> None
                | Some v \<Rightarrow>
                   (case pf v of
                      None \<Rightarrow> None
                    | Some frequency \<Rightarrow>
                        if \<not> (175 / 2 \<le> frequency \<and> frequency \<le> 108) then None
                        else
                          let name0 = strip (get_default row ''name'' []);
                              location = strip (get_default row ''landmark'' []);
                              state = strip (get_default row ''state'' []);
                              station_name = (if name0 = [] then U ''FM '' @ fstr frequency
                                              else name0);
                              priority = priority_score station_name;
                              distance_bonus = max (0::rat) (50 - distance);
                              total_score = rat_of_int priority + distance_bonus;
                              sub_name = (if location \<noteq> [] then location
                                          else if state \<noteq> [] then state
                                          else U ''Austria'')
                          in Some \<lparr>st_score = total_score, st_name = station_name,
                                   st_sub_name = sub_name, st_frequency = frequency,
                                   st_lat = lat, st_lon = lon,
                                   st_loc_exact =
                                     (map lower_cp (get_default row ''loc_exact'' [])
                                        = U ''true'')\<rparr>))
      | _ \<Rightarrow> None)"

fun vienna_loop ::
  "(ustr \<Rightarrow> rat option) \<Rightarrow> (rat \<Rightarrow> rat \<Rightarrow> rat) \<Rightarrow> (rat \<Rightarrow> ustr) \<Rightarrow> (ustr \<Rightarrow> ustr)
     \<Rightarrow> row list \<Rightarrow> station list \<Rightarrow> ustr set \<Rightarrow> station list" where
  "vienna_loop pf vdist fstr lower [] stations seen_stations = stations"
| "vienna_loop pf vdist fstr lower (row # rows) stations seen_stations =
     (case vienna_station pf vdist fstr row of
        None \<Rightarrow> vienna_loop pf vdist fstr lower rows stations seen_stations
      | Some station_data \<Rightarrow>
          let key = station_key lower (st_name station_data)
          in if key \<in> seen_stations
             then vienna_loop pf vdist fstr lower rows stations seen_stations
             else vienna_loop pf vdist fstr lower rows (stations @ [station_data])
                    (insert key seen_stations))"

definition sort_by_score :: "station list \<Rightarrow> station list" where
  \<comment> \<open>\<open>stations.sort(key=lambda x: x['score'], reverse=True)\<close>: descending and stable\<close>
  "sort_by_score stations = sort_key (\<lambda>x. - st_score x) stations"

definition vienna_stations ::
  "(ustr \<Rightarrow> rat option) \<Rightarrow> (rat \<Rightarrow> rat \<Rightarrow> rat) \<Rightarrow> (rat \<Rightarrow> ustr) \<Rightarrow> (ustr \<Rightarrow> ustr)
     \<Rightarrow> row list \<Rightarrow> station list" where
  \<comment> \<open>the list \<open>stations\<close> when the loop ends\<close>
  "vienna_stations pf vdist fstr lower rows = vienna_loop pf vdist fstr lower rows [] {}"

definition top_stations ::
  "(ustr \<Rightarrow> rat option) \<Rightarrow> (rat \<Rightarrow> rat \<Rightarrow> rat) \<Rightarrow> (rat \<Rightarrow> ustr) \<Rightarrow> (ustr \<Rightarrow> ustr)
     \<Rightarrow> row list \<Rightarrow> station list" where
  "top_stations pf vdist fstr lower rows =
     take 50 (sort_by_score (vienna_stations pf vdist fstr lower rows))"



definition vienna_icom_row :: "int \<Rightarrow> ustr \<Rightarrow> station \<Rightarrow> icom_row" where
  "vienna_icom_row group_number group_name station =
     \<lparr>Group_No = group_number, Group_Name = group_name,
      Name = st_name station, Sub_Name = st_sub_name station,
      Repeater_Call_Sign = [], Gateway_Call_Sign = [],
      Frequency = Num (st_frequency station), Dup = [], Offset = Num 0,
      Mode = U ''FM'', TONE = U ''OFF'', Repeater_Tone = U ''88.5Hz'', RPT1USE = U ''NO'',
      Position = (if st_loc_exact station then U ''Exact'' else U ''Approximate''),
      Latitude = Num (st_lat station), Longitude = Num (st_lon station),
      UTC_Offset = U ''+1:00''\<rparr>"

definition convert_vienna_radio_to_icom_format ::
  "(ustr \<Rightarrow> rat option) \<Rightarrow> (rat \<Rightarrow> rat \<Rightarrow> rat) \<Rightarrow> (rat \<Rightarrow> ustr) \<Rightarrow> (ustr \<Rightarrow> ustr)
     \<Rightarrow> int \<Rightarrow> ustr \<Rightarrow> row list \<Rightarrow> icom_row list" where
  "convert_vienna_radio_to_icom_format pf vdist fstr lower group_number group_name rows =
     map (vienna_icom_row group_number group_name) (top_stations pf vdist fstr lower rows)"

section \<open>Example rows\<close>

definition summit_zero_lat :: row where
  "summit_zero_lat =
     [''lat'' \<mapsto> U ''0'', ''long'' \<mapsto> U ''16.3'', ''callsign'' \<mapsto> U ''OE/WI-001'',
      ''name'' \<mapsto> U ''Hermannskogel'', ''country_code'' \<mapsto> U ''AUT'']"

definition summit_hochschwab :: row where
  "summit_hochschwab =
     [''lat'' \<mapsto> U ''47.6'', ''long'' \<mapsto> U ''15.1'', ''callsign'' \<mapsto> U ''OE/ST-001'',
      ''name'' \<mapsto> U ''Hochschwab'', ''state'' \<mapsto> U ''Steiermark'',
      ''sea_level'' \<mapsto> U ''2277'', ''country_code'' \<mapsto> U ''AUT'']"

definition station_long_name :: row where
  \<comment> \<open>a station at the city centre\<close>
  "station_long_name =
     [''lat'' \<mapsto> U ''48.2082'', ''long'' \<mapsto> U ''16.3738'', ''freq_rx'' \<mapsto> U ''99.9'',
      ''name'' \<mapsto> U ''Radio Niederoesterreich'']"

definition example_distance :: "rat \<Rightarrow> rat \<Rightarrow> rat" where
  \<comment> \<open>stands for \<open>calculate_distance\<close> in the examples: an upper estimate of the distance
      from the city centre (48.2082, 16.3738) that agrees with it at the centre, where both
      are 0; every station of the examples lies at the centre\<close>
  "example_distance lat lon = 112 * (\<bar>lat - 482082 / 10000\<bar> + \<bar>lon - 163738 / 10000\<bar>)"

definition example_fstr :: "rat \<Rightarrow> ustr" where
  \<comment> \<open>stands for \<open>str\<close> of a float in the examples, none of which formats one\<close>
  "example_fstr x = U ''?''"

definition fm_bad_offset :: row where
  "fm_bad_offset =
     [''name'' \<mapsto> U ''Wien Kahlenberg'', ''callsign'' \<mapsto> U ''OE1XUU'',
      ''freq_rx'' \<mapsto> U ''145.6'', ''offset'' \<mapsto> U ''abc'', ''dup'' \<mapsto> U ''+'']"

definition fm_minus :: row where
  "fm_minus =
     [''name'' \<mapsto> U ''Wien Kahlenberg'', ''callsign'' \<mapsto> U ''OE1XUU'',
      ''freq_rx'' \<mapsto> U ''145.6'', ''offset'' \<mapsto> U ''0.6'', ''dup'' \<mapsto> U ''-'']"

definition fm_simplex :: row where
  "fm_simplex =
     [''name'' \<mapsto> U ''Wien Simplex'', ''freq_rx'' \<mapsto> U ''145.5'', ''offset'' \<mapsto> U ''0.6'',
      ''dup'' \<mapsto> []]"





section \<open>Frequency repair: results\<close>

lemma ensure_band_cases: "ensure_band x = (if kept x then x else 145)"
  unfolding ensure_band_def kept_def by auto

lemma kept_145: "kept 145"
  unfolding kept_def by simp

lemma kept_ge: "kept x \<Longrightarrow> 144 \<le> x"
  unfolding kept_def by auto

lemma kept_ensure_band: "kept (ensure_band x)"
  by (simp add: ensure_band_cases kept_145)

lemma shift_low_id: "144 \<le> x \<Longrightarrow> shift_low x = x"
  unfolding shift_low_def by auto

text \<open>
  C6. The repair is idempotent: repairing a repaired frequency changes nothing; and
  \<open>repair 145.5 = 145.5\<close>, \<open>repair 51 = 145\<close>, \<open>repair 29 = 145\<close>.
\<close>

theorem repair_idempotent:
  "repair (repair f) = repair f
   \<and> repair (291 / 2) = 291 / 2 \<and> repair 51 = 145 \<and> repair 29 = 145"
proof -
  have k: "kept (repair f)"
    unfolding repair_def by (rule kept_ensure_band)
  then have "shift_low (repair f) = repair f"
    by (simp add: shift_low_id kept_ge)
  then have "repair (repair f) = repair f"
    using k by (simp add: repair_def [of "repair f"] ensure_band_cases)
  moreover have "repair (291 / 2) = 291 / 2"
    unfolding repair_def shift_low_def ensure_band_def by simp
  moreover have "repair 51 = 145"
    unfolding repair_def shift_low_def ensure_band_def by simp
  moreover have "repair 29 = 145"
    unfolding repair_def shift_low_def ensure_band_def by simp
  ultimately show ?thesis by simp
qed

lemma repair_with_exact: "repair_with (+) f = repair f"
  by (simp add: repair_with_def repair_def shift_low_with_def shift_low_def)

lemma repair_with_idempotent: "repair_with add (repair_with add f) = repair_with add f"
proof -
  have k: "kept (repair_with add f)"
    unfolding repair_with_def by (rule kept_ensure_band)
  then have "144 \<le> repair_with add f" by (rule kept_ge)
  then have "shift_low_with add (repair_with add f) = repair_with add f"
    unfolding shift_low_with_def by auto
  then show ?thesis
    using k by (simp add: repair_with_def [of add "repair_with add f"] ensure_band_cases)
qed

lemma int_faithful_exact: "int_faithful (+)"
  by (simp add: int_faithful_def)






section \<open>Grid locators: results\<close>

text \<open>
  C1. At the 4-character locator JN88 the code returns (48.020833, 16.016667): the
  offsets 1.25/60 and 1/60 are added at every resolution.  The centre of the 2 by 1
  degree square JN88 is (48.5, 17), which is what \<open>maidenhead_to_gps\<close> returns.
\<close>

theorem maidenhead_to_latlon_JN88:
  "maidenhead_to_latlon (U ''JN88'') = Some (48020833 / 1000000, 16016667 / 1000000)
   \<and> maidenhead_to_gps (U ''JN88'') = Some (97 / 2, 17)"
  by code_simp

lemma py_int_char_None: "py_int_char c = None \<longleftrightarrow> \<not> is_digit c"
  by (simp add: py_int_char_def is_digit_def)

lemma is_digit_upper: "is_digit (upper_cp c) = is_digit c"
  by (auto simp: is_digit_def upper_cp_def)

lemma latlon_None_iff:
  "maidenhead_to_latlon g = None \<longleftrightarrow>
     length g < 4 \<or> \<not> is_digit (g ! 2) \<or> \<not> is_digit (g ! 3)
     \<or> (8 \<le> length g \<and> (\<not> is_digit (g ! 6) \<or> \<not> is_digit (g ! 7)))"
proof (cases "length g < 4")
  case True
  then show ?thesis by (simp add: maidenhead_to_latlon_def)
next
  case False
  then have n: "2 < length g" "3 < length g" "g \<noteq> []" by auto
  have d2: "py_int_char (map upper_cp g ! 2) = None \<longleftrightarrow> \<not> is_digit (g ! 2)"
    using n by (simp add: py_int_char_None is_digit_upper)
  have d3: "py_int_char (map upper_cp g ! 3) = None \<longleftrightarrow> \<not> is_digit (g ! 3)"
    using n by (simp add: py_int_char_None is_digit_upper)
  show ?thesis
  proof (cases "8 \<le> length g")
    case True
    then have m: "6 < length g" "7 < length g" by auto
    have d6: "py_int_char (map upper_cp g ! 6) = None \<longleftrightarrow> \<not> is_digit (g ! 6)"
      using m by (simp add: py_int_char_None is_digit_upper)
    have d7: "py_int_char (map upper_cp g ! 7) = None \<longleftrightarrow> \<not> is_digit (g ! 7)"
      using m by (simp add: py_int_char_None is_digit_upper)
    show ?thesis
      using False True n d2 d3 d6 d7
      by (auto simp: maidenhead_to_latlon_def Let_def split: option.splits)
  next
    case F8: False
    show ?thesis
      using False F8 n d2 d3
      by (auto simp: maidenhead_to_latlon_def Let_def split: option.splits)
  qed
qed

lemma gps_None_iff: "maidenhead_to_gps g = None \<longleftrightarrow> length g < 4"
  by (auto simp: maidenhead_to_gps_def Let_def)



lemma maidenhead_to_latlon_py_ascii:
  "maidenhead_to_latlon_py (map upper_cp) py_int_char g = maidenhead_to_latlon g"
  by (auto simp: maidenhead_to_latlon_py_def maidenhead_to_latlon_def Let_def
      split: option.splits)

lemma maidenhead_to_gps_py_ascii:
  "maidenhead_to_gps_py (map upper_cp) g = maidenhead_to_gps g"
  by (auto simp: maidenhead_to_gps_py_def maidenhead_to_gps_def Let_def)







section \<open>Text normalisation: results\<close>

text \<open>
  The copy of \<open>convert_umlauts\<close> shared by the five GPS scripts and the copy of
  \<open>fix_umlauts.py\<close> give each of the 27 characters of the claimed table its claimed
  output: the first by its table, the second by its table for the German letters and by
  the decomposition for the Slavic ones.
\<close>

lemma convert_umlauts_gps_table: "matches_claimed convert_umlauts_gps"
  by code_simp

lemma convert_umlauts_fix_table: "matches_claimed convert_umlauts_fix"
  by code_simp

text \<open>
  C5. In \<open>create_icom_sota_csv.py\<close> the keys of the table are two- and three-character
  sequences (U+221A U+00FC for the sharp s), so no single diacritic matches: the sharp s
  (U+00DF) is dropped and a-umlaut (U+00E4) becomes \<open>a\<close>, not \<open>ss\<close> and \<open>ae\<close>.  In
  \<open>create_icom_pota_csv.py\<close> the table stops after r-caron and nothing follows it, so
  s-caron (U+0161) is returned unchanged.
\<close>

theorem convert_umlauts_copies_differ:
  "convert_umlauts_sota [223] = [] \<and> convert_umlauts_sota [228] = U ''a''
   \<and> convert_umlauts_icom_pota [353] = [353]
   \<and> \<not> matches_claimed convert_umlauts_sota
   \<and> \<not> matches_claimed convert_umlauts_icom_pota"
  by code_simp

section \<open>The SOTA exporters: results\<close>

lemma sota_row_Some:
  assumes "get_float pf row ''lat'' = Some lat" "get_float pf row ''long'' = Some lon"
    "lat \<noteq> 0" "lon \<noteq> 0" "strip (get_default row ''callsign'' []) \<noteq> []"
  shows "\<exists>r. sota_row pf gn gname row = Some r \<and> Latitude r = Num lat \<and> Longitude r = Num lon"
  using assms by (simp add: sota_row_def Let_def)

lemma sota_row_zero:
  assumes "get_float pf row ''lat'' = Some 0 \<or> get_float pf row ''long'' = Some 0"
  shows "sota_row pf gn gname row = None"
  using assms by (auto simp: sota_row_def split: option.splits)

lemma sota_gps_entry_zero:
  assumes "get_float pf row ''lat'' = Some 0 \<or> get_float pf row ''long'' = Some 0"
  shows "sota_gps_entry pf d row = None"
  using assms by (auto simp: sota_gps_entry_def Let_def split: option.splits)

lemma sota_gps_entry_Some:
  assumes "get_float pf row ''lat'' = Some lat" "get_float pf row ''long'' = Some lon"
    "lat \<noteq> 0" "lon \<noteq> 0" "get_default row ''name'' [] \<noteq> []"
    "map_of group_map (map upper_cp (get_default row ''country_code'' [])) = Some g"
  shows "\<exists>c e. sota_gps_entry pf d row = Some (c, e) \<and> gps_Latitude e = lat
           \<and> gps_Longitude e = lon"
  using assms by (cases g) (simp add: sota_gps_entry_def Let_def)

text \<open>
  C9, as the code has it.  A summit row is left out as soon as its latitude or its
  longitude is 0, one of them being enough.  A row whose latitude and longitude both
  parse and are both different from 0 is exported with these two coordinates, provided
  it passes the other checks of its exporter: a callsign that is not blank in
  \<open>convert_sota_to_icom_format\<close>; a name that is not empty and a country code of the
  group map in \<open>create_sota_gps_files\<close>.
\<close>

theorem sota_coordinates:
  "(get_float pf row ''lat'' = Some 0 \<or> get_float pf row ''long'' = Some 0 \<longrightarrow>
      sota_row pf gn gname row = None \<and> sota_gps_entry pf d row = None)
   \<and> (\<forall>lat lon. get_float pf row ''lat'' = Some lat \<and> get_float pf row ''long'' = Some lon
         \<and> lat \<noteq> 0 \<and> lon \<noteq> 0 \<longrightarrow>
        (strip (get_default row ''callsign'' []) \<noteq> [] \<longrightarrow>
           (\<exists>r. sota_row pf gn gname row = Some r \<and> Latitude r = Num lat
                \<and> Longitude r = Num lon))
        \<and> (get_default row ''name'' [] \<noteq> []
             \<and> map_of group_map (map upper_cp (get_default row ''country_code'' [])) \<noteq> None \<longrightarrow>
           (\<exists>c e. sota_gps_entry pf d row = Some (c, e) \<and> gps_Latitude e = lat
                \<and> gps_Longitude e = lon)))"
  using sota_row_zero [of pf row gn gname] sota_gps_entry_zero [of pf row d]
    sota_row_Some [of pf row _ _ gn gname] sota_gps_entry_Some [of pf row _ _ _ d]
  by (intro conjI impI allI) (blast | (elim conjE, blast))+

theorem sota_coordinates_witness:
  "sota_row parse_decimal 70 (U ''SOTA-Summits'') summit_zero_lat = None
   \<and> sota_gps_entry parse_decimal (U ''01/01/2026'') summit_zero_lat = None
   \<and> (\<exists>r. sota_row parse_decimal 70 (U ''SOTA-Summits'') summit_hochschwab = Some r
          \<and> Latitude r = Num (238 / 5) \<and> Longitude r = Num (151 / 10))
   \<and> (\<exists>c e. sota_gps_entry parse_decimal (U ''01/01/2026'') summit_hochschwab = Some (c, e)
          \<and> gps_Latitude e = 238 / 5 \<and> gps_Longitude e = 151 / 10)"
proof -
  have z: "get_float parse_decimal summit_zero_lat ''lat'' = Some 0"
    by code_simp
  have a: "get_float parse_decimal summit_hochschwab ''lat'' = Some (238 / 5)"
    by code_simp
  have b: "get_float parse_decimal summit_hochschwab ''long'' = Some (151 / 10)"
    by code_simp
  have c: "strip (get_default summit_hochschwab ''callsign'' []) \<noteq> []"
    by code_simp
  have n: "get_default summit_hochschwab ''name'' [] \<noteq> []"
    by code_simp
  have g: "map_of group_map (map upper_cp (get_default summit_hochschwab ''country_code'' []))
             \<noteq> None"
    by code_simp
  from sota_coordinates [of parse_decimal summit_zero_lat 70 "U ''SOTA-Summits''"
      "U ''01/01/2026''"] z
  have 1: "sota_row parse_decimal 70 (U ''SOTA-Summits'') summit_zero_lat = None
     \<and> sota_gps_entry parse_decimal (U ''01/01/2026'') summit_zero_lat = None"
    by blast
  have nz: "(238 / 5 :: rat) \<noteq> 0" "(151 / 10 :: rat) \<noteq> 0"
    by simp_all
  from sota_coordinates [of parse_decimal summit_hochschwab 70 "U ''SOTA-Summits''"
      "U ''01/01/2026''"] a b c n g nz
  have 2: "(\<exists>r. sota_row parse_decimal 70 (U ''SOTA-Summits'') summit_hochschwab = Some r
          \<and> Latitude r = Num (238 / 5) \<and> Longitude r = Num (151 / 10))
   \<and> (\<exists>c e. sota_gps_entry parse_decimal (U ''01/01/2026'') summit_hochschwab = Some (c, e)
          \<and> gps_Latitude e = 238 / 5 \<and> gps_Longitude e = 151 / 10)"
    by blast
  from 1 2 show ?thesis by blast
qed

text \<open>
  The claim C9 as written fails on a row with latitude 0 and longitude 16.3: the pair is
  not (0, 0), and both exporters leave the row out.
\<close>

theorem sota_coordinates_counterexample:
  "get_float parse_decimal summit_zero_lat ''lat'' = Some 0
   \<and> get_float parse_decimal summit_zero_lat ''long'' = Some (163 / 10)
   \<and> sota_row parse_decimal 70 (U ''SOTA-Summits'') summit_zero_lat = None
   \<and> sota_gps_entry parse_decimal (U ''01/01/2026'') summit_zero_lat = None"
  by code_simp

section \<open>Display names: results\<close>

lemma vienna_station_name:
  assumes "vienna_station pf vdist fstr row = Some s"
    and "strip (get_default row ''name'' []) \<noteq> []"
  shows "st_name s = strip (get_default row ''name'' [])"
  using assms
  by (auto simp: vienna_station_def Let_def split: option.splits if_splits)

lemma sota_row_names:
  assumes "sota_row pf gn gname row = Some r"
  shows "Name r = take 16 (convert_umlauts_sota
                    (sota_name (strip (get_default row ''callsign'' []))
                       (strip (get_default row ''name'' []))))"
    and "Sub_Name r = take 16 (convert_umlauts_sota
                    (sota_sub_name pf (strip (get_default row ''state'' []))
                       (strip (get_default row ''sea_level'' []))
                       (strip (get_default row ''country_code'' []))))"
  using assms
  by (auto simp: sota_row_def Let_def split: option.splits if_splits)

lemma sota_sub_name_state:
  assumes "state \<noteq> []" "elevation = [] \<or> pf elevation = None"
  shows "sota_sub_name pf state elevation country_code = convert_umlauts_sota (take 8 state)"
  using assms by (auto simp: sota_sub_name_def)

lemma sota_sub_name_state_elevation:
  assumes "state \<noteq> []" "elevation \<noteq> []" "pf elevation = Some e"
  shows "sota_sub_name pf state elevation country_code
           = convert_umlauts_sota (take 8 state) @ [32] @ str_int (py_trunc e) @ U ''m''"
  using assms by (simp add: sota_sub_name_def)

lemma sota_sub_name_elevation:
  assumes "state = []" "elevation \<noteq> []" "pf elevation = Some e"
  shows "sota_sub_name pf state elevation country_code = str_int (py_trunc e) @ U ''m''"
  using assms by (simp add: sota_sub_name_def)

lemma sota_sub_name_country:
  assumes "state = []" "elevation = [] \<or> pf elevation = None"
  shows "sota_sub_name pf state elevation country_code = country_code"
  using assms by (auto simp: sota_sub_name_def)

text \<open>
  C3, as the code has it.  The SOTA projector writes as Name and Sub Name the first 16
  characters of what its normalizer returns, so both are at most 16 long.  The text given
  to the normalizer is already cut: the name is the callsign alone, or the callsign, a
  space and the first 10 characters of the summit name; the sub name is built from the
  normalized first 8 characters of the state and the elevation in metres, or is the
  country code when there is neither.  The Vienna projector writes the station name and
  the sub name as they were stored, the name being the stripped \<open>name\<close> column: it
  neither normalizes nor truncates.
\<close>

theorem export_names:
  "(\<forall>r. sota_row pf gn gname row = Some r \<longrightarrow>
        Name r = take 16 (convert_umlauts_sota
                    (sota_name (strip (get_default row ''callsign'' []))
                       (strip (get_default row ''name'' []))))
      \<and> Sub_Name r = take 16 (convert_umlauts_sota
                    (sota_sub_name pf (strip (get_default row ''state'' []))
                       (strip (get_default row ''sea_level'' []))
                       (strip (get_default row ''country_code'' []))))
      \<and> length (Name r) \<le> 16 \<and> length (Sub_Name r) \<le> 16)
   \<and> (summit_name \<noteq> [] \<longrightarrow>
        sota_name callsign summit_name = callsign @ [32] @ take 10 summit_name)
   \<and> (summit_name = [] \<longrightarrow> sota_name callsign summit_name = callsign)
   \<and> (state \<noteq> [] \<and> (elevation = [] \<or> pf elevation = None) \<longrightarrow>
        sota_sub_name pf state elevation country_code = convert_umlauts_sota (take 8 state))
   \<and> (\<forall>e. state \<noteq> [] \<and> elevation \<noteq> [] \<and> pf elevation = Some e \<longrightarrow>
        sota_sub_name pf state elevation country_code
          = convert_umlauts_sota (take 8 state) @ [32] @ str_int (py_trunc e) @ U ''m'')
   \<and> (\<forall>e. state = [] \<and> elevation \<noteq> [] \<and> pf elevation = Some e \<longrightarrow>
        sota_sub_name pf state elevation country_code = str_int (py_trunc e) @ U ''m'')
   \<and> (state = [] \<and> (elevation = [] \<or> pf elevation = None) \<longrightarrow>
        sota_sub_name pf state elevation country_code = country_code)
   \<and> map Name (convert_vienna_radio_to_icom_format pf vdist fstr lower gn gname rows)
        = map st_name (top_stations pf vdist fstr lower rows)
   \<and> map Sub_Name (convert_vienna_radio_to_icom_format pf vdist fstr lower gn gname rows)
        = map st_sub_name (top_stations pf vdist fstr lower rows)
   \<and> (\<forall>s. vienna_station pf vdist fstr row = Some s
            \<and> strip (get_default row ''name'' []) \<noteq> [] \<longrightarrow>
          st_name s = strip (get_default row ''name'' []))"
proof -
  have 1: "\<forall>r. sota_row pf gn gname row = Some r \<longrightarrow>
        Name r = take 16 (convert_umlauts_sota
                    (sota_name (strip (get_default row ''callsign'' []))
                       (strip (get_default row ''name'' []))))
      \<and> Sub_Name r = take 16 (convert_umlauts_sota
                    (sota_sub_name pf (strip (get_default row ''state'' []))
                       (strip (get_default row ''sea_level'' []))
                       (strip (get_default row ''country_code'' []))))
      \<and> length (Name r) \<le> 16 \<and> length (Sub_Name r) \<le> 16"
    by (simp add: sota_row_names)
  have 2: "summit_name \<noteq> [] \<longrightarrow>
        sota_name callsign summit_name = callsign @ [32] @ take 10 summit_name"
    by (simp add: sota_name_def)
  have 3: "summit_name = [] \<longrightarrow> sota_name callsign summit_name = callsign"
    by (simp add: sota_name_def)
  have 4: "state \<noteq> [] \<and> (elevation = [] \<or> pf elevation = None) \<longrightarrow>
        sota_sub_name pf state elevation country_code = convert_umlauts_sota (take 8 state)"
    using sota_sub_name_state by blast
  have 5: "\<forall>e. state \<noteq> [] \<and> elevation \<noteq> [] \<and> pf elevation = Some e \<longrightarrow>
        sota_sub_name pf state elevation country_code
          = convert_umlauts_sota (take 8 state) @ [32] @ str_int (py_trunc e) @ U ''m''"
    using sota_sub_name_state_elevation by blast
  have 6: "\<forall>e. state = [] \<and> elevation \<noteq> [] \<and> pf elevation = Some e \<longrightarrow>
        sota_sub_name pf state elevation country_code = str_int (py_trunc e) @ U ''m''"
    using sota_sub_name_elevation by blast
  have 7: "state = [] \<and> (elevation = [] \<or> pf elevation = None) \<longrightarrow>
        sota_sub_name pf state elevation country_code = country_code"
    using sota_sub_name_country by blast
  have 8: "map Name (convert_vienna_radio_to_icom_format pf vdist fstr lower gn gname rows)
        = map st_name (top_stations pf vdist fstr lower rows)"
    by (simp add: convert_vienna_radio_to_icom_format_def vienna_icom_row_def)
  have 9: "map Sub_Name (convert_vienna_radio_to_icom_format pf vdist fstr lower gn gname rows)
        = map st_sub_name (top_stations pf vdist fstr lower rows)"
    by (simp add: convert_vienna_radio_to_icom_format_def vienna_icom_row_def)
  have 10: "\<forall>s. vienna_station pf vdist fstr row = Some s
            \<and> strip (get_default row ''name'' []) \<noteq> [] \<longrightarrow>
          st_name s = strip (get_default row ''name'' [])"
    using vienna_station_name by blast
  from 1 2 3 4 5 6 7 8 9 10 show ?thesis by blast
qed

theorem export_names_witness:
  "(\<exists>r. sota_row parse_decimal 70 (U ''SOTA-Summits'') summit_hochschwab = Some r
        \<and> length (Name r) \<le> 16 \<and> length (Sub_Name r) \<le> 16)
   \<and> sota_name (U ''OE/TI-001'') (U ''Grossglockner'')
        = U ''OE/TI-001'' @ [32] @ take 10 (U ''Grossglockner'')
   \<and> sota_name (U ''OE/TI-001'') [] = U ''OE/TI-001''
   \<and> sota_sub_name parse_decimal (U ''Steiermark'') [] (U ''AUT'')
        = convert_umlauts_sota (take 8 (U ''Steiermark''))
   \<and> sota_sub_name parse_decimal (U ''Steiermark'') (U ''2277'') (U ''AUT'')
        = convert_umlauts_sota (take 8 (U ''Steiermark'')) @ [32] @ str_int (py_trunc 2277)
          @ U ''m''
   \<and> sota_sub_name parse_decimal [] (U ''2277'') (U ''AUT'') = str_int (py_trunc 2277) @ U ''m''
   \<and> sota_sub_name parse_decimal [] [] (U ''AUT'') = U ''AUT''
   \<and> (\<exists>s. vienna_station parse_decimal example_distance example_fstr station_long_name
            = Some s
        \<and> st_name s = strip (get_default station_long_name ''name'' []))"
proof -
  have st: "U ''Steiermark'' \<noteq> []" and el: "U ''2277'' \<noteq> []" and gg: "U ''Grossglockner'' \<noteq> []"
    by (simp_all add: U_def)
  have pe: "parse_decimal (U ''2277'') = Some 2277"
    by code_simp
  note A = export_names [of parse_decimal 70 "U ''SOTA-Summits''" summit_hochschwab
      "U ''Grossglockner''" "U ''OE/TI-001''" "U ''Steiermark''" "[]" "U ''AUT''"
      example_distance example_fstr "map lower_cp" "[]"]
  note B = export_names [of parse_decimal 70 "U ''SOTA-Summits''" station_long_name
      "[]" "U ''OE/TI-001''" "U ''Steiermark''" "U ''2277''" "U ''AUT''"
      example_distance example_fstr "map lower_cp" "[]"]
  note C = export_names [of parse_decimal 70 "U ''SOTA-Summits''" station_long_name
      "[]" "U ''OE/TI-001''" "[]" "U ''2277''" "U ''AUT''"
      example_distance example_fstr "map lower_cp" "[]"]
  note D = export_names [of parse_decimal 70 "U ''SOTA-Summits''" station_long_name
      "[]" "U ''OE/TI-001''" "[]" "[]" "U ''AUT''"
      example_distance example_fstr "map lower_cp" "[]"]
  have "sota_row parse_decimal 70 (U ''SOTA-Summits'') summit_hochschwab \<noteq> None"
    by code_simp
  then obtain r where r: "sota_row parse_decimal 70 (U ''SOTA-Summits'') summit_hochschwab
      = Some r"
    by blast
  with A have 1: "length (Name r) \<le> 16 \<and> length (Sub_Name r) \<le> 16"
    by blast
  from A gg have 2: "sota_name (U ''OE/TI-001'') (U ''Grossglockner'')
        = U ''OE/TI-001'' @ [32] @ take 10 (U ''Grossglockner'')"
    by blast
  from B have 3: "sota_name (U ''OE/TI-001'') [] = U ''OE/TI-001''"
    by blast
  from A st have 4: "sota_sub_name parse_decimal (U ''Steiermark'') [] (U ''AUT'')
        = convert_umlauts_sota (take 8 (U ''Steiermark''))"
    by blast
  from B st el pe have 5: "sota_sub_name parse_decimal (U ''Steiermark'') (U ''2277'') (U ''AUT'')
        = convert_umlauts_sota (take 8 (U ''Steiermark'')) @ [32] @ str_int (py_trunc 2277)
          @ U ''m''"
    by blast
  from C el pe have 6: "sota_sub_name parse_decimal [] (U ''2277'') (U ''AUT'')
        = str_int (py_trunc 2277) @ U ''m''"
    by blast
  from D have 7: "sota_sub_name parse_decimal [] [] (U ''AUT'') = U ''AUT''"
    by blast
  have "vienna_station parse_decimal example_distance example_fstr station_long_name \<noteq> None"
    by code_simp
  then obtain s where s: "vienna_station parse_decimal example_distance example_fstr
      station_long_name = Some s"
    by blast
  have "strip (get_default station_long_name ''name'' []) \<noteq> []"
    by code_simp
  with B s have 8: "st_name s = strip (get_default station_long_name ''name'' [])"
    by blast
  from r 1 2 3 4 5 6 7 s 8 show ?thesis by blast
qed

text \<open>
  The claim C3 as written fails twice.  The summit row of the Hochschwab, in the state
  Steiermark, gets the Sub Name \<open>Steierma 2277m\<close>: the state was cut to 8 characters
  before the normalizer ran, while normalizing the full text \<open>Steiermark 2277m\<close> and then
  cutting at 16 would keep all of it.  And for a station at the city centre, where the
  distance is 0, the Vienna projector writes the 23 characters of a long station name.
\<close>

theorem export_names_counterexample:
  "map_option Sub_Name (sota_row parse_decimal 70 (U ''SOTA-Summits'') summit_hochschwab)
     = Some (U ''Steierma 2277m'')
   \<and> take 16 (convert_umlauts_sota (U ''Steiermark 2277m'')) = U ''Steiermark 2277m''
   \<and> example_distance (482082 / 10000) (163738 / 10000) = 0
   \<and> map Name (convert_vienna_radio_to_icom_format parse_decimal example_distance
        example_fstr (map lower_cp) 60 (U ''Vienna-FM'') [station_long_name])
     = [U ''Radio Niederoesterreich'']
   \<and> length (U ''Radio Niederoesterreich'') = 23"
  by code_simp

section \<open>The FM repeater exporter: results\<close>

lemma fm_row_duplex:
  assumes "fm_row pf fstr cf gn gname row = Some r"
  shows "Dup r = fst (fm_duplex pf row)" and "Offset r = Num (snd (fm_duplex pf row))"
  using assms
  by (auto simp: fm_row_def Let_def split_beta split: option.splits if_splits)

lemma fm_duplex_other:
  assumes "get_default row ''dup'' [] \<noteq> U ''+''" "get_default row ''dup'' [] \<noteq> U ''-''"
  shows "fm_duplex pf row = ([], 0)"
  using assms by (simp add: fm_duplex_def Let_def split: option.splits)

lemma fm_duplex_unparsed:
  assumes "get_float pf row ''offset'' = None"
  shows "fm_duplex pf row = ([], 0)"
  using assms by (simp add: fm_duplex_def)

lemma fm_duplex_plus:
  assumes "get_float pf row ''offset'' = Some v" "get_default row ''dup'' [] = U ''+''"
  shows "fm_duplex pf row = (U ''DUP+'', v)"
  using assms by (simp add: fm_duplex_def Let_def)

lemma fm_duplex_minus:
  assumes "get_float pf row ''offset'' = Some v" "get_default row ''dup'' [] = U ''-''"
  shows "fm_duplex pf row = (U ''DUP-'', v)"
  using assms by (simp add: fm_duplex_def Let_def U_def)

text \<open>
  C10, as the code has it.  In a row the FM projector emits: a direction that is neither
  \<open>+\<close> nor \<open>-\<close> gives an empty Dup and the Offset 0; so does an offset field that does
  not parse, whatever the direction; and with an offset that parses, the direction \<open>+\<close>
  gives \<open>DUP+\<close> and \<open>-\<close> gives \<open>DUP-\<close> with the parsed offset passed through.
\<close>

theorem fm_duplex_rule:
  "\<forall>r. fm_row pf fstr cf gn gname row = Some r \<longrightarrow>
     (get_default row ''dup'' [] \<noteq> U ''+'' \<and> get_default row ''dup'' [] \<noteq> U ''-'' \<longrightarrow>
        Dup r = [] \<and> Offset r = Num 0)
     \<and> (get_float pf row ''offset'' = None \<longrightarrow> Dup r = [] \<and> Offset r = Num 0)
     \<and> (\<forall>v. get_float pf row ''offset'' = Some v \<longrightarrow>
           (get_default row ''dup'' [] = U ''+'' \<longrightarrow> Dup r = U ''DUP+'' \<and> Offset r = Num v)
         \<and> (get_default row ''dup'' [] = U ''-'' \<longrightarrow> Dup r = U ''DUP-'' \<and> Offset r = Num v))"
proof (intro allI impI)
  fix r
  assume r: "fm_row pf fstr cf gn gname row = Some r"
  note d = fm_row_duplex [OF r]
  have 1: "get_default row ''dup'' [] \<noteq> U ''+'' \<and> get_default row ''dup'' [] \<noteq> U ''-'' \<longrightarrow>
        Dup r = [] \<and> Offset r = Num 0"
    using d by (simp add: fm_duplex_other)
  have 2: "get_float pf row ''offset'' = None \<longrightarrow> Dup r = [] \<and> Offset r = Num 0"
    using d by (simp add: fm_duplex_unparsed)
  have 3: "\<forall>v. get_float pf row ''offset'' = Some v \<longrightarrow>
           (get_default row ''dup'' [] = U ''+'' \<longrightarrow> Dup r = U ''DUP+'' \<and> Offset r = Num v)
         \<and> (get_default row ''dup'' [] = U ''-'' \<longrightarrow> Dup r = U ''DUP-'' \<and> Offset r = Num v)"
    using d by (simp add: fm_duplex_plus fm_duplex_minus)
  from 1 2 3 show "(get_default row ''dup'' [] \<noteq> U ''+'' \<and> get_default row ''dup'' [] \<noteq> U ''-'' \<longrightarrow>
        Dup r = [] \<and> Offset r = Num 0)
     \<and> (get_float pf row ''offset'' = None \<longrightarrow> Dup r = [] \<and> Offset r = Num 0)
     \<and> (\<forall>v. get_float pf row ''offset'' = Some v \<longrightarrow>
           (get_default row ''dup'' [] = U ''+'' \<longrightarrow> Dup r = U ''DUP+'' \<and> Offset r = Num v)
         \<and> (get_default row ''dup'' [] = U ''-'' \<longrightarrow> Dup r = U ''DUP-'' \<and> Offset r = Num v))"
    by blast
qed

theorem fm_duplex_rule_witness:
  "(\<exists>r. fm_row parse_decimal example_fstr None 32 (U ''AT-Repeaters'') fm_minus = Some r
        \<and> Dup r = U ''DUP-'' \<and> Offset r = Num (3 / 5))
   \<and> (\<exists>r. fm_row parse_decimal example_fstr None 32 (U ''AT-Repeaters'') fm_simplex = Some r
        \<and> Dup r = [] \<and> Offset r = Num 0)
   \<and> (\<exists>r. fm_row parse_decimal example_fstr None 32 (U ''AT-Repeaters'') fm_bad_offset = Some r
        \<and> Dup r = [] \<and> Offset r = Num 0)"
proof -
  have "fm_row parse_decimal example_fstr None 32 (U ''AT-Repeaters'') fm_minus \<noteq> None"
    by code_simp
  then obtain r1 where r1:
    "fm_row parse_decimal example_fstr None 32 (U ''AT-Repeaters'') fm_minus = Some r1"
    by blast
  have o1: "get_float parse_decimal fm_minus ''offset'' = Some (3 / 5)"
    by code_simp
  have d1: "get_default fm_minus ''dup'' [] = U ''-''"
    by code_simp
  from fm_duplex_rule [of parse_decimal example_fstr None 32 "U ''AT-Repeaters''" fm_minus]
    r1 o1 d1
  have 1: "Dup r1 = U ''DUP-'' \<and> Offset r1 = Num (3 / 5)"
    by blast
  have "fm_row parse_decimal example_fstr None 32 (U ''AT-Repeaters'') fm_simplex \<noteq> None"
    by code_simp
  then obtain r2 where r2:
    "fm_row parse_decimal example_fstr None 32 (U ''AT-Repeaters'') fm_simplex = Some r2"
    by blast
  have d2: "get_default fm_simplex ''dup'' [] \<noteq> U ''+''
            \<and> get_default fm_simplex ''dup'' [] \<noteq> U ''-''"
    by code_simp
  from fm_duplex_rule [of parse_decimal example_fstr None 32 "U ''AT-Repeaters''" fm_simplex]
    r2 d2
  have 2: "Dup r2 = [] \<and> Offset r2 = Num 0"
    by blast
  have "fm_row parse_decimal example_fstr None 32 (U ''AT-Repeaters'') fm_bad_offset \<noteq> None"
    by code_simp
  then obtain r3 where r3:
    "fm_row parse_decimal example_fstr None 32 (U ''AT-Repeaters'') fm_bad_offset = Some r3"
    by blast
  have o3: "get_float parse_decimal fm_bad_offset ''offset'' = None"
    by code_simp
  from fm_duplex_rule [of parse_decimal example_fstr None 32 "U ''AT-Repeaters''"
      fm_bad_offset] r3 o3
  have 3: "Dup r3 = [] \<and> Offset r3 = Num 0"
    by blast
  from r1 1 r2 2 r3 3 show ?thesis by blast
qed

text \<open>
  The claim C10 as written fails on a row whose direction is \<open>+\<close> and whose offset field
  is \<open>abc\<close>: the row is emitted with an empty Dup and the Offset 0, not with \<open>DUP+\<close>.
\<close>

theorem fm_duplex_rule_counterexample:
  "get_default fm_bad_offset ''dup'' [] = U ''+''
   \<and> map_option (\<lambda>r. (Dup r, Offset r))
         (fm_row parse_decimal example_fstr None 32 (U ''AT-Repeaters'') fm_bad_offset)
       = Some ([], Num 0)"
  by code_simp

section \<open>Rows that fail to parse: results\<close>









section \<open>Deduplication and ranking: results\<close>



















end
